theory Spec2Isabelle
  imports Main "HOL-Library.Char_ord" "HOL-Library.List_Lexorder"
begin

section \<open>Strings\<close>

text \<open>
  Go strings are read here as ASCII text: one \<^typ>\<open>char\<close> per rune.  The helpers of the
  packages \<^verbatim>\<open>strings\<close> and \<^verbatim>\<open>unicode\<close> that the generator calls are written out for
  that range; on bytes above 127 the embedding promises nothing.
\<close>

abbreviation dquote :: char where "dquote \<equiv> CHR 0x22"
abbreviation newline :: char where "newline \<equiv> CHR 0x0A"
abbreviation tab :: char where "tab \<equiv> CHR 0x09"

definition lowerLetters :: string where
  "lowerLetters = ''abcdefghijklmnopqrstuvwxyz''"

definition upperLetters :: string where
  "upperLetters = ''ABCDEFGHIJKLMNOPQRSTUVWXYZ''"

definition IsLetter :: "char \<Rightarrow> bool" where
  "IsLetter r = (r \<in> set (upperLetters @ lowerLetters))"

definition IsDigit :: "char \<Rightarrow> bool" where
  "IsDigit r = (r \<in> set ''0123456789'')"

text \<open>\<^verbatim>\<open>strings.ToUpper\<close> on the one-byte prefix \<^verbatim>\<open>s[0:1]\<close>.\<close>

definition ToUpper :: "string \<Rightarrow> string" where
  "ToUpper s = map (\<lambda>c. case map_of (zip lowerLetters upperLetters) c of
                            Some u \<Rightarrow> u | None \<Rightarrow> c) s"

text \<open>\<^verbatim>\<open>strings.IndexAny\<close>: the index of the first byte of \<open>s\<close> that is in \<open>chars\<close>, or -1.\<close>

fun IndexAny :: "string \<Rightarrow> string \<Rightarrow> int" where
  "IndexAny [] chars = - 1"
| "IndexAny (c # cs) chars =
     (if c \<in> set chars then 0
      else (let r = IndexAny cs chars in if r < 0 then - 1 else r + 1))"

definition HasPrefix :: "string \<Rightarrow> string \<Rightarrow> bool" where
  "HasPrefix s pre = (take (length pre) s = pre)"

text \<open>\<^verbatim>\<open>strings.Trim\<close>: all leading and trailing bytes of the cutset removed.\<close>

definition Trim :: "string \<Rightarrow> string \<Rightarrow> string" where
  "Trim s cutset =
     rev (dropWhile (\<lambda>c. c \<in> set cutset) (rev (dropWhile (\<lambda>c. c \<in> set cutset) s)))"

text \<open>\<^verbatim>\<open>strings.Repeat\<close> for a count that is not negative.\<close>

definition Repeat :: "string \<Rightarrow> int \<Rightarrow> string" where
  "Repeat s n = concat (replicate (nat n) s)"

text \<open>The decimal digits of \<^verbatim>\<open>%d\<close> for a counter that is never negative.\<close>

function showNat :: "nat \<Rightarrow> string" where
  "showNat n =
     (if n < 10 then [''0123456789'' ! n]
      else showNat (n div 10) @ [''0123456789'' ! (n mod 10)])"
  by pat_completeness auto
termination
  by (relation "measure id") auto

declare showNat.simps [simp del]

section \<open>Identifier sanitisation (generator.go)\<close>

type_synonym conventions = "string \<Rightarrow> string option"

definition isNotAGoNameCharacter :: "char \<Rightarrow> bool" where
  "isNotAGoNameCharacter r = (if IsLetter r \<or> IsDigit r then False else True)"

text \<open>
  The loop of \<^verbatim>\<open>splitOnAll\<close>, with its two variables \<open>rv\<close> and \<open>buf\<close>: a byte that splits
  appends the buffer to \<open>rv\<close> whatever it holds; only after the last byte is the buffer
  appended under the guard \<^verbatim>\<open>buf.Len() > 0\<close>.
\<close>

fun splitOnAll_loop :: "(char \<Rightarrow> bool) \<Rightarrow> string \<Rightarrow> string list \<Rightarrow> string \<Rightarrow> string list" where
  "splitOnAll_loop shouldSplit [] rv buf = (if length buf > 0 then rv @ [buf] else rv)"
| "splitOnAll_loop shouldSplit (c # cs) rv buf =
     (if shouldSplit c then splitOnAll_loop shouldSplit cs (rv @ [buf]) []
      else splitOnAll_loop shouldSplit cs rv (buf @ [c]))"

definition splitOnAll :: "string \<Rightarrow> (char \<Rightarrow> bool) \<Rightarrow> string list" where
  "splitOnAll s shouldSplit = splitOnAll_loop shouldSplit s [] []"

definition capitaliseFirstLetter :: "string \<Rightarrow> string" where
  "capitaliseFirstLetter s = (if s = [] then s else ToUpper (take 1 s) @ drop 1 s)"

definition applyConventions :: "string \<Rightarrow> conventions \<Rightarrow> string" where
  "applyConventions fragment conventions =
     (case conventions fragment of Some conv \<Rightarrow> conv | None \<Rightarrow> fragment)"

text \<open>The loop of \<^verbatim>\<open>getGolangName\<close> over the fragments, with the index \<open>i\<close> and the buffer.\<close>

fun getGolangName_loop :: "conventions \<Rightarrow> nat \<Rightarrow> string list \<Rightarrow> string \<Rightarrow> string" where
  "getGolangName_loop conventions i [] buf = buf"
| "getGolangName_loop conventions i (v # vs) buf =
     (let buf1 = (if i = 0 \<and> IndexAny v ''0123456789'' = 0 then buf @ ''_'' else buf)
      in getGolangName_loop conventions (Suc i) vs
           (buf1 @ applyConventions (capitaliseFirstLetter v) conventions))"

definition getGolangName :: "string \<Rightarrow> conventions \<Rightarrow> string" where
  "getGolangName s conventions =
     getGolangName_loop conventions 0 (splitOnAll s isNotAGoNameCharacter) []"

section \<open>Primitive type names\<close>

datatype error =
    EmptyReference string
  | ReferenceNotFound string string
  | EmptyArraySubtype
  | EmptyObjectSubtype
  | UndefinedPrimitive string string
  | ResolverInitFailed

definition getPrimitiveTypeName :: "string \<Rightarrow> string \<Rightarrow> bool \<Rightarrow> error + string" where
  "getPrimitiveTypeName schemaType subType pointer =
     (if schemaType = ''array'' then
        (if subType = '''' then Inl EmptyArraySubtype
         else Inr (''[]'' @ Trim (if subType = ''int'' then ''int64'' else subType) ''*''))
      else if schemaType = ''boolean'' then Inr ''bool''
      else if schemaType = ''integer'' then Inr ''int''
      else if schemaType = ''number'' then Inr ''float64''
      else if schemaType = ''null'' then Inr ''nil''
      else if schemaType = ''object'' then
        (if subType = '''' then Inl EmptyObjectSubtype
         else if pointer then Inr (''*'' @ subType)
         else Inr subType)
      else if schemaType = ''string'' then Inr ''string''
      else Inl (UndefinedPrimitive schemaType subType))"

section \<open>The data model\<close>

text \<open>
  \<^verbatim>\<open>Field\<close> and \<^verbatim>\<open>Struct\<close> as generator.go declares them.  A Go map is an association list with
  one entry per key; \<open>put\<close> is the assignment \<^verbatim>\<open>m[k] = v\<close>.  The struct's \<^verbatim>\<open>Name\<close> and
  \<^verbatim>\<open>Description\<close> carry the prefix \<open>Struct\<close>, the schema's fields of the same names the prefix
  \<open>Schema\<close>, since one theory holds all three records.
\<close>

fun put :: "'k \<Rightarrow> 'v \<Rightarrow> ('k \<times> 'v) list \<Rightarrow> ('k \<times> 'v) list" where
  "put k v [] = [(k, v)]"
| "put k v ((k', v') # m) = (if k' = k then (k, v) # m else (k', v') # put k v m)"

record Field =
  Name :: string
  JSONName :: string
  Type :: string
  Required :: bool
  Description :: string
  Format :: string

record Struct =
  ID :: string
  StructName :: string
  StructDescription :: string
  Fields :: "(string \<times> Field) list"
  GenerateCode :: bool
  AdditionalType :: string
  importTypes :: "string list"

record stringFormatType =
  PackageName :: string
  TypeName :: string

text \<open>
  A schema node.  Pointers to nodes are addresses (\<open>nat\<close>) into the store \<open>nodes\<close> of the
  generator state below; \<^verbatim>\<open>nil\<close> is \<open>None\<close>.  \<open>Properties\<close> and \<open>Definitions\<close> are Go maps: the
  order of the list is the order in which \<^verbatim>\<open>range\<close> happens to visit the keys in a run.
  \<open>SchemaID\<close> is what the method \<^verbatim>\<open>ID()\<close> returns.  The type declaration is kept as the list
  of declared tags \<open>TypeValue\<close>.
\<close>

record Schema =
  SchemaID :: string
  Title :: string
  SchemaDescription :: string
  SchemaFormat :: string
  TypeValue :: "string list"
  JSONKey :: string
  PathElement :: string
  Parent :: "nat option"
  Properties :: "(string \<times> nat) list"
  Items :: "nat option"
  SchemaRequired :: "string list"
  AdditionalProperties :: "nat option"
  AdditionalPropertiesBool :: "bool option"
  Definitions :: "(string \<times> nat) list"
  Reference :: string
  GeneratedType :: string

text \<open>
  Modelled from the spec: the methods \<^verbatim>\<open>FixMissingTypeValue\<close> and \<^verbatim>\<open>MultiType\<close> of the
  schema type are not among the sources.  The spec: a missing type declaration defaults to
  \<^verbatim>\<open>object\<close> for a schema with properties; the declared tags are a genuine union when there
  is more than one.
\<close>

definition FixMissingTypeValue :: "Schema \<Rightarrow> Schema" where
  "FixMissingTypeValue s =
     (if TypeValue s = [] \<and> Properties s \<noteq> [] then s\<lparr>TypeValue := [''object'']\<rparr> else s)"

definition MultiType :: "Schema \<Rightarrow> string list \<times> bool" where
  "MultiType s = (TypeValue s, length (TypeValue s) > 1)"

text \<open>
  The reference resolver is a collaborator outside the sources; the generator uses its three
  methods, which are taken as given: \<open>Init\<close> is the error of \<^verbatim>\<open>Init()\<close> if any,
  \<open>GetSchemaByReference\<close> the node a referring node's \<^verbatim>\<open>$ref\<close> leads to, \<open>GetPath\<close> the path
  printed in error messages.
\<close>

record RefResolver =
  Init :: "error option"
  GetSchemaByReference :: "nat \<Rightarrow> nat option"
  GetPath :: "nat \<Rightarrow> string"

text \<open>
  The generator, with the memory its schema pointers lead to (\<open>nodes\<close>).  \<open>anonCount\<close> is a
  Go \<^verbatim>\<open>int\<close> that only counts up from zero.
\<close>

record Generator =
  nodes :: "nat \<Rightarrow> Schema"
  schemas :: "nat list"
  resolver :: RefResolver
  Structs :: "(string \<times> Struct) list"
  Aliases :: "(string \<times> Field) list"
  customStringTypes :: "(string \<times> stringFormatType) list"
  refs :: "(string \<times> string) list"
  anonCount :: nat

definition formatCustomTypes :: "(string \<times> stringFormatType) list" where
  "formatCustomTypes =
     [(''date-time'', \<lparr>PackageName = ''time'', TypeName = ''time.Time''\<rparr>),
      (''uuid'', \<lparr>PackageName = ''github.com/google/uuid'', TypeName = ''uuid.UUID''\<rparr>)]"

text \<open>\<^verbatim>\<open>New\<close>: a fresh generator over the given memory, root schemas and resolver.\<close>

definition New :: "(nat \<Rightarrow> Schema) \<Rightarrow> RefResolver \<Rightarrow> nat list \<Rightarrow> Generator" where
  "New mem res roots =
     \<lparr>nodes = mem, schemas = roots, resolver = res, Structs = [], Aliases = [],
      customStringTypes = formatCustomTypes, refs = [], anonCount = 0\<rparr>"

fun contains :: "string list \<Rightarrow> string \<Rightarrow> bool" where
  "contains [] e = False"
| "contains (a # s) e = (if a = e then True else contains s e)"

section \<open>Naming\<close>

definition getSchemaName :: "string \<Rightarrow> nat \<Rightarrow> conventions \<Rightarrow> Generator \<Rightarrow> string \<times> Generator" where
  "getSchemaName keyName schema conventions g =
     (let s = nodes g schema in
      if length (Title s) > 0 then (getGolangName (Title s) conventions, g)
      else if keyName \<noteq> '''' then (getGolangName keyName conventions, g)
      else case Parent s of
        None \<Rightarrow> (''Root'', g)
      | Some parent \<Rightarrow>
          if JSONKey s \<noteq> '''' then (getGolangName (JSONKey s) conventions, g)
          else if JSONKey (nodes g parent) \<noteq> '''' then
            (getGolangName (JSONKey (nodes g parent) @ ''Item'') conventions, g)
          else (''Anonymous'' @ showNat (anonCount g + 1), g\<lparr>anonCount := anonCount g + 1\<rparr>))"

section \<open>Type resolution\<close>

text \<open>
  The five methods of the generator call each other through \<^verbatim>\<open>processSchema\<close> only.  Each
  of the other four is written with that call as its first argument \<open>rec\<close>; \<open>processSchema\<close>
  ties the knot by recursion on a bound for the depth of its nested calls, and returns
  \<open>None\<close> when the bound is used up (the Go code then recurses further).  A result carries the
  generator state reached, also beside an error: the Go methods mutate the generator and the
  nodes in place.
\<close>

type_synonym outcome = "((error + string) \<times> Generator) option"
type_synonym resolve = "string \<Rightarrow> nat \<Rightarrow> Generator \<Rightarrow> outcome"

text \<open>The loop of \<^verbatim>\<open>processDefinitions\<close> over the definitions still to visit.\<close>

fun processDefinitions_loop ::
  "resolve \<Rightarrow> conventions \<Rightarrow> (string \<times> nat) list \<Rightarrow> Generator \<Rightarrow> (error option \<times> Generator) option" where
  "processDefinitions_loop rec conventions [] g = Some (None, g)"
| "processDefinitions_loop rec conventions ((key, subSchema) # rest) g =
     (case rec (getGolangName key conventions) subSchema g of
        None \<Rightarrow> None
      | Some (Inl err, g1) \<Rightarrow> Some (Some err, g1)
      | Some (Inr _, g1) \<Rightarrow> processDefinitions_loop rec conventions rest g1)"

definition processDefinitions ::
  "resolve \<Rightarrow> nat \<Rightarrow> conventions \<Rightarrow> Generator \<Rightarrow> (error option \<times> Generator) option" where
  "processDefinitions rec schema conventions g =
     processDefinitions_loop rec conventions (Definitions (nodes g schema)) g"

definition processReference :: "resolve \<Rightarrow> nat \<Rightarrow> conventions \<Rightarrow> Generator \<Rightarrow> outcome" where
  "processReference rec schema conventions g =
     (let schemaPath = GetPath (resolver g) schema in
      if Reference (nodes g schema) = '''' then Some (Inl (EmptyReference schemaPath), g)
      else case GetSchemaByReference (resolver g) schema of
        None \<Rightarrow> Some (Inl (ReferenceNotFound (Reference (nodes g schema)) schemaPath), g)
      | Some refSchema \<Rightarrow>
          if GeneratedType (nodes g refSchema) = '''' then
            (let (refSchemaName, g1) = getSchemaName '''' refSchema conventions g in
             case rec refSchemaName refSchema g1 of
               None \<Rightarrow> None
             | Some (Inl err, g2) \<Rightarrow> Some (Inl err, g2)
             | Some (Inr typeName, g2) \<Rightarrow> Some (Inr typeName, g2))
          else Some (Inr (GeneratedType (nodes g refSchema)), g))"

definition processArray :: "resolve \<Rightarrow> string \<Rightarrow> nat \<Rightarrow> conventions \<Rightarrow> Generator \<Rightarrow> outcome" where
  "processArray rec name schema conventions g =
     (case Items (nodes g schema) of
        None \<Rightarrow> Some (Inr ''[]interface{}'', g)
      | Some items \<Rightarrow>
          (let (subName, g1) = getSchemaName (name @ ''Items'') items conventions g in
           case rec subName items g1 of
             None \<Rightarrow> None
           | Some (Inl err, g2) \<Rightarrow> Some (Inl err, g2)
           | Some (Inr subTyp, g2) \<Rightarrow>
               (case getPrimitiveTypeName ''array'' subTyp True of
                  Inl err \<Rightarrow> Some (Inl err, g2)
                | Inr finalType \<Rightarrow>
                    (let s = nodes g2 schema in
                     if Parent s = None then
                       Some (Inr finalType,
                         g2\<lparr>Aliases := put name
                              \<lparr>Name = name, JSONName = '''', Type = finalType,
                               Required = contains (SchemaRequired s) name,
                               Description = SchemaDescription s, Format = SchemaFormat s\<rparr>
                              (Aliases g2)\<rparr>)
                     else Some (Inr finalType, g2)))))"

text \<open>
  The loop of \<^verbatim>\<open>processObject\<close> over the properties still to visit; \<open>strct\<close> is the record
  under construction.
\<close>

fun processObject_properties ::
  "resolve \<Rightarrow> conventions \<Rightarrow> (string \<times> stringFormatType) list \<Rightarrow> nat \<Rightarrow> (string \<times> nat) list \<Rightarrow>
   Struct \<Rightarrow> Generator \<Rightarrow> ((error + Struct) \<times> Generator) option" where
  "processObject_properties rec conventions customTypes schema [] strct g = Some (Inr strct, g)"
| "processObject_properties rec conventions customTypes schema ((propKey, prop) # rest) strct g =
     (let fieldName = getGolangName propKey conventions;
          (subSchemaName, g1) = getSchemaName fieldName prop conventions g
      in case rec subSchemaName prop g1 of
        None \<Rightarrow> None
      | Some (Inl err, g2) \<Rightarrow> Some (Inl err, g2)
      | Some (Inr fieldType, g2) \<Rightarrow>
          (let f = \<lparr>Name = fieldName, JSONName = propKey, Type = fieldType,
                    Required = contains (SchemaRequired (nodes g2 schema)) propKey,
                    Description = SchemaDescription (nodes g2 prop),
                    Format = SchemaFormat (nodes g2 prop)\<rparr>;
               strct1 = (if Type f = ''string'' \<and> Format f \<noteq> '''' then
                           (case map_of customTypes (Format f) of
                              Some customTypeForFormat \<Rightarrow>
                                strct\<lparr>importTypes :=
                                  importTypes strct @ [PackageName customTypeForFormat]\<rparr>
                            | None \<Rightarrow> strct)
                         else strct);
               strct2 = (if Required f then strct1\<lparr>GenerateCode := True\<rparr> else strct1);
               strct3 = strct2\<lparr>Fields := put (Name f) f (Fields strct2)\<rparr>
           in processObject_properties rec conventions customTypes schema rest strct3 g2))"

text \<open>
  \<^verbatim>\<open>additionalProperties\<close> with a typed sub-schema (lines 242 to 273).  \<open>Inl\<close> is what the
  method returns at once (an error, or the bare map type); \<open>Inr\<close> is the record to go on with.
\<close>

definition processObject_additional ::
  "resolve \<Rightarrow> conventions \<Rightarrow> nat \<Rightarrow> Struct \<Rightarrow> Generator \<Rightarrow>
   (((error + string) + Struct) \<times> Generator) option" where
  "processObject_additional rec conventions schema strct g =
     (case AdditionalProperties (nodes g schema) of
        None \<Rightarrow> Some (Inr strct, g)
      | Some ap \<Rightarrow>
          if AdditionalPropertiesBool (nodes g ap) \<noteq> None then Some (Inr strct, g)
          else
            (let (apName, g1) = getSchemaName '''' ap conventions g in
             case rec apName ap g1 of
               None \<Rightarrow> None
             | Some (Inl err, g2) \<Rightarrow> Some (Inl (Inl err), g2)
             | Some (Inr subTyp, g2) \<Rightarrow>
                 (let mapTyp = ''map[string]'' @ subTyp;
                      isDefinitionObject = HasPrefix (PathElement (nodes g2 schema)) ''definitions''
                  in if length (Properties (nodes g2 schema)) = 0 \<and> \<not> isDefinitionObject
                     then Some (Inl (Inr mapTyp), g2)
                     else Some (Inr (strct\<lparr>Fields := put ''AdditionalProperties''
                                           \<lparr>Name = ''AdditionalProperties'', JSONName = ''-'',
                                            Type = mapTyp, Required = False, Description = '''',
                                            Format = ''''\<rparr> (Fields strct),
                                         GenerateCode := True,
                                         AdditionalType := subTyp\<rparr>), g2))))"

text \<open>\<^verbatim>\<open>additionalProperties\<close> as a boolean (lines 274 to 295).\<close>

definition processObject_boolean :: "nat \<Rightarrow> Struct \<Rightarrow> Generator \<Rightarrow> Struct" where
  "processObject_boolean schema strct g =
     (case AdditionalProperties (nodes g schema) of
        None \<Rightarrow> strct
      | Some ap \<Rightarrow>
          (case AdditionalPropertiesBool (nodes g ap) of
             None \<Rightarrow> strct
           | Some b \<Rightarrow>
               if b = True then
                 strct\<lparr>Fields := put ''AdditionalProperties''
                          \<lparr>Name = ''AdditionalProperties'', JSONName = ''-'',
                           Type = ''map[string]interface{}'', Required = False,
                           Description = '''', Format = ''''\<rparr> (Fields strct),
                        GenerateCode := True,
                        AdditionalType := ''interface{}''\<rparr>
               else strct\<lparr>GenerateCode := True, AdditionalType := ''false''\<rparr>))"

definition processObject ::
  "resolve \<Rightarrow> string \<Rightarrow> nat \<Rightarrow> conventions \<Rightarrow> (string \<times> stringFormatType) list \<Rightarrow> Generator \<Rightarrow> outcome" where
  "processObject rec name schema conventions customTypes g =
     (let strct = \<lparr>ID = SchemaID (nodes g schema), StructName = name,
                   StructDescription = SchemaDescription (nodes g schema), Fields = [],
                   GenerateCode = False, AdditionalType = '''', importTypes = []\<rparr>;
          g0 = g\<lparr>nodes := (nodes g)(schema := (nodes g schema)\<lparr>GeneratedType := ''*'' @ name\<rparr>)\<rparr>
      in case processObject_properties rec conventions customTypes schema
                (Properties (nodes g0 schema)) strct g0 of
        None \<Rightarrow> None
      | Some (Inl err, g1) \<Rightarrow> Some (Inl err, g1)
      | Some (Inr strct1, g1) \<Rightarrow>
          (case processObject_additional rec conventions schema strct1 g1 of
             None \<Rightarrow> None
           | Some (Inl early, g2) \<Rightarrow> Some (early, g2)
           | Some (Inr strct2, g2) \<Rightarrow>
               (let strct3 = processObject_boolean schema strct2 g2
                in Some (getPrimitiveTypeName ''object'' name True,
                         g2\<lparr>Structs := put (StructName strct3) strct3 (Structs g2)\<rparr>))))"

text \<open>The loop of \<^verbatim>\<open>processSchema\<close> over the declared type tags still to visit.\<close>

fun processSchema_types ::
  "resolve \<Rightarrow> conventions \<Rightarrow> string \<Rightarrow> nat \<Rightarrow> bool \<Rightarrow> string list \<Rightarrow> Generator \<Rightarrow> outcome" where
  "processSchema_types rec conventions schemaName schema isMultiType [] g =
     Some (Inr ''interface{}'', g)"
| "processSchema_types rec conventions schemaName schema isMultiType (schemaType # rest) g =
     (let name = (if isMultiType then schemaName @ ''_'' @ schemaType else schemaName)
      in case (if schemaType = ''object'' then
                 processObject rec name schema conventions (customStringTypes g) g
               else if schemaType = ''array'' then
                 processArray rec name schema conventions g
               else Some (getPrimitiveTypeName schemaType '''' False, g)) of
        None \<Rightarrow> None
      | Some (Inl err, g1) \<Rightarrow> Some (Inl err, g1)
      | Some (Inr rv, g1) \<Rightarrow>
          if \<not> isMultiType then Some (Inr rv, g1)
          else processSchema_types rec conventions schemaName schema isMultiType rest g1)"

text \<open>
  \<^verbatim>\<open>processSchema\<close>.  The value \<^verbatim>\<open>processDefinitions\<close> returns is dropped, as in line 119: only
  the state it leaves behind goes on.
\<close>

fun processSchema :: "nat \<Rightarrow> conventions \<Rightarrow> string \<Rightarrow> nat \<Rightarrow> Generator \<Rightarrow> outcome" where
  "processSchema 0 conventions schemaName schema g = None"
| "processSchema (Suc depth) conventions schemaName schema g =
    (case (if length (Definitions (nodes g schema)) > 0
           then processDefinitions (processSchema depth conventions) schema conventions g
           else Some (None, g)) of
       None \<Rightarrow> None
     | Some (_, g1) \<Rightarrow>
         (let g2 = g1\<lparr>nodes := (nodes g1)(schema := FixMissingTypeValue (nodes g1 schema))\<rparr>;
              (types, isMultiType) = MultiType (nodes g2 schema)
          in if length types > 0 then
               processSchema_types (processSchema depth conventions) conventions schemaName
                 schema isMultiType types g2
             else if Reference (nodes g2 schema) \<noteq> '''' then
               processReference (processSchema depth conventions) schema conventions g2
             else Some (Inr ''interface{}'', g2)))"

text \<open>The loop of \<^verbatim>\<open>CreateTypes\<close> over the root schemas still to visit.\<close>

fun CreateTypes_loop ::
  "nat \<Rightarrow> conventions \<Rightarrow> nat list \<Rightarrow> Generator \<Rightarrow> (error option \<times> Generator) option" where
  "CreateTypes_loop depth conventions [] g = Some (None, g)"
| "CreateTypes_loop depth conventions (schema # rest) g =
     (let (name, g1) = getSchemaName '''' schema conventions g
      in case processSchema depth conventions name schema g1 of
        None \<Rightarrow> None
      | Some (Inl err, g2) \<Rightarrow> Some (Some err, g2)
      | Some (Inr rootType, g2) \<Rightarrow>
          CreateTypes_loop depth conventions rest
            (if rootType \<noteq> ''*'' @ name then
               g2\<lparr>Aliases := put name
                    \<lparr>Name = name, JSONName = '''', Type = rootType, Required = False,
                     Description = SchemaDescription (nodes g2 schema),
                     Format = SchemaFormat (nodes g2 schema)\<rparr> (Aliases g2)\<rparr>
             else g2))"

definition CreateTypes :: "nat \<Rightarrow> conventions \<Rightarrow> Generator \<Rightarrow> (error option \<times> Generator) option" where
  "CreateTypes depth conventions g =
     (case Init (resolver g) of
        Some err \<Rightarrow> Some (Some err, g)
      | None \<Rightarrow> CreateTypes_loop depth conventions (schemas g) g)"

section \<open>The mapping renderer (esoutput.go)\<close>

text \<open>
  The writer \<open>w\<close> is the text written to it: every function returns what it prints.
\<close>

definition printIndented :: "int \<Rightarrow> string \<Rightarrow> string" where
  "printIndented indent formatted = (if indent > 0 then Repeat [tab] indent else '''') @ formatted"

definition printIndentedLn :: "int \<Rightarrow> string \<Rightarrow> string" where
  "printIndentedLn indent formatted = printIndented indent formatted @ [newline]"

definition getESType :: "Field \<Rightarrow> string" where
  "getESType f =
     (if Type f = ''string'' \<or> Type f = ''[]string'' then
        (if Format f = ''date-time'' then ''date'' else ''keyword'')
      else if Type f = ''int'' then ''integer''
      else if Type f = ''bool'' then ''boolean''
      else ''object'')"

text \<open>
  Modelled from the spec: \<^verbatim>\<open>getOrderedFieldNames\<close> is not among the sources.  The spec: the
  fields of a record are visited by name, ascending.
\<close>

definition getOrderedFieldNames :: "(string \<times> Field) list \<Rightarrow> string list" where
  "getOrderedFieldNames m = sort (map fst m)"

text \<open>Reading a Go map at a key it does not hold gives the zero value.\<close>

definition zeroField :: Field where
  "zeroField = \<lparr>Name = '''', JSONName = '''', Type = '''', Required = False,
                Description = '''', Format = ''''\<rparr>"

definition fieldAt :: "(string \<times> Field) list \<Rightarrow> string \<Rightarrow> Field" where
  "fieldAt m k = (case map_of m k of Some f \<Rightarrow> f | None \<Rightarrow> zeroField)"

text \<open>The leaf mapping \<^verbatim>\<open>{ "type": "..." }\<close> that three branches of the renderer print.\<close>

definition typeLeaf :: "int \<Rightarrow> string \<Rightarrow> string" where
  "typeLeaf indent ftype =
     ''{'' @ [newline] @
     printIndentedLn (indent + 1) ([dquote] @ ''type'' @ [dquote] @ '': '' @ [dquote] @ ftype @ [dquote]) @
     printIndented ((indent + 1) - 1) ''}''"

text \<open>
  What \<^verbatim>\<open>renderStructMapping\<close> prints for one field after its key (lines 97 to 132); \<open>rec\<close> is
  the recursive call for an inlined record.
\<close>

definition renderStructMapping_field ::
  "(int \<Rightarrow> Struct \<Rightarrow> string option) \<Rightarrow> int \<Rightarrow> Field \<Rightarrow> (string \<times> Struct) list \<Rightarrow> string option" where
  "renderStructMapping_field rec indent f structs =
     (let esType = getESType f;
          name = Trim (Type f) ''[]*''
      in if esType = ''object'' then
           (case map_of structs name of
              Some s \<Rightarrow>
                if AdditionalType s \<noteq> '''' \<or> Format f = ''raw'' then
                  Some (''{'' @ [newline] @
                        printIndentedLn (indent + 1)
                          ([dquote] @ ''enabled'' @ [dquote] @ '' : false,'') @
                        printIndentedLn (indent + 1)
                          ([dquote] @ ''type'' @ [dquote] @ '': '' @ [dquote] @ esType @ [dquote]) @
                        printIndented ((indent + 1) - 1) ''}'')
                else rec ((indent + 1) - 1) s
            | None \<Rightarrow> Some (typeLeaf indent (if name = ''int64'' then ''integer'' else ''keyword'')))
         else Some (typeLeaf indent esType))"

text \<open>The loop over the ordered field names, with the counter of fields printed so far.\<close>

fun renderStructMapping_fields ::
  "(int \<Rightarrow> Struct \<Rightarrow> string option) \<Rightarrow> int \<Rightarrow> (string \<times> Field) list \<Rightarrow> (string \<times> Struct) list \<Rightarrow>
   string list \<Rightarrow> nat \<Rightarrow> string option" where
  "renderStructMapping_fields rec indent flds structs [] count = Some ''''"
| "renderStructMapping_fields rec indent flds structs (fieldKey # rest) count =
     (let f = fieldAt flds fieldKey
      in if HasPrefix (JSONName f) ''_'' \<or> JSONName f = ''-'' then
           renderStructMapping_fields rec indent flds structs rest count
         else
           (case renderStructMapping_field rec indent f structs of
              None \<Rightarrow> None
            | Some body \<Rightarrow>
                (case renderStructMapping_fields rec indent flds structs rest (count + 1) of
                   None \<Rightarrow> None
                 | Some others \<Rightarrow>
                     Some ((if count \<noteq> 0 then '','' @ [newline] else '''') @
                           printIndented indent ([dquote] @ JSONName f @ [dquote] @ '': '') @
                           body @ others))))"

text \<open>
  \<^verbatim>\<open>renderStructMapping\<close>, by recursion on a bound for the depth of inlined records (a record
  that inlines itself makes the Go function recurse without end).
\<close>

fun renderStructMapping :: "nat \<Rightarrow> int \<Rightarrow> Struct \<Rightarrow> (string \<times> Struct) list \<Rightarrow> string option" where
  "renderStructMapping 0 indent s structs = None"
| "renderStructMapping (Suc depth) indent s structs =
    (case renderStructMapping_fields (\<lambda>i s'. renderStructMapping depth i s' structs)
            (indent + 2) (Fields s) structs (getOrderedFieldNames (Fields s)) 0 of
       None \<Rightarrow> None
     | Some body \<Rightarrow>
         Some (''{'' @ [newline] @
               printIndentedLn (indent + 1) ([dquote] @ ''properties'' @ [dquote] @ '': {'') @
               body @
               printIndentedLn (indent + 2) '''' @
               printIndentedLn ((indent + 2) - 1) ''}'' @
               printIndented ((indent + 2) - 2) ''}''))"

section \<open>Invariants of a resolution pass\<close>

text \<open>
  A predicate on the generator state is \<open>stable\<close> when each of the five writes the methods
  perform keeps it: counting up \<open>anonCount\<close>, writing the memo of a node, defaulting its type,
  registering a record, registering an alias.  \<open>keeps P rec\<close>: every call of \<open>rec\<close> that
  returns leaves \<open>P\<close> true if it was.
\<close>

definition stable :: "(Generator \<Rightarrow> bool) \<Rightarrow> bool" where
  "stable P =
     ((\<forall>g c. P g \<longrightarrow> P (g\<lparr>anonCount := c\<rparr>)) \<and>
      (\<forall>g n t. P g \<longrightarrow>
         P (g\<lparr>nodes := (nodes g)(n := (nodes g n)\<lparr>GeneratedType := ''*'' @ t\<rparr>)\<rparr>)) \<and>
      (\<forall>g n. P g \<longrightarrow> P (g\<lparr>nodes := (nodes g)(n := FixMissingTypeValue (nodes g n))\<rparr>)) \<and>
      (\<forall>g k v. P g \<longrightarrow> P (g\<lparr>Structs := put k v (Structs g)\<rparr>)) \<and>
      (\<forall>g k v. P g \<longrightarrow> P (g\<lparr>Aliases := put k v (Aliases g)\<rparr>)))"

definition keeps :: "(Generator \<Rightarrow> bool) \<Rightarrow> resolve \<Rightarrow> bool" where
  "keeps P rec = (\<forall>nm s g r g'. rec nm s g = Some (r, g') \<longrightarrow> P g \<longrightarrow> P g')"

text \<open>Two nodes that differ at most in the two fields a pass writes.\<close>

definition sameShape :: "Schema \<Rightarrow> Schema \<Rightarrow> bool" where
  "sameShape a b =
     (a\<lparr>TypeValue := [], GeneratedType := ''''\<rparr> = b\<lparr>TypeValue := [], GeneratedType := ''''\<rparr>)"

section \<open>Schema graphs used as inputs\<close>

text \<open>The zero value of a schema node, and a resolver that resolves nothing.\<close>

definition emptySchema :: Schema where
  "emptySchema =
     \<lparr>SchemaID = '''', Title = '''', SchemaDescription = '''', SchemaFormat = '''',
      TypeValue = [], JSONKey = '''', PathElement = '''', Parent = None, Properties = [],
      Items = None, SchemaRequired = [], AdditionalProperties = None,
      AdditionalPropertiesBool = None, Definitions = [], Reference = '''',
      GeneratedType = ''''\<rparr>"

definition noResolver :: RefResolver where
  "noResolver = \<lparr>Init = None, GetSchemaByReference = (\<lambda>_. None), GetPath = (\<lambda>_. '''')\<rparr>"

text \<open>What a run registered under \<^verbatim>\<open>Root\<close>, and the mapping rendered for it.\<close>

definition rootStruct :: "(error option \<times> Generator) option \<Rightarrow> Struct option" where
  "rootStruct out = (case out of Some (None, g) \<Rightarrow> map_of (Structs g) ''Root'' | _ \<Rightarrow> None)"

definition rootMapping :: "(error option \<times> Generator) option \<Rightarrow> string option" where
  "rootMapping out =
     (case out of
        Some (None, g) \<Rightarrow>
          (case map_of (Structs g) ''Root'' of
             Some s \<Rightarrow> renderStructMapping 2 0 s (Structs g)
           | None \<Rightarrow> None)
      | _ \<Rightarrow> None)"

text \<open>
  \<^verbatim>\<open>{"type":"object","properties":{"a-b":{"type":"string"},"a_b":{"type":"integer"}}}\<close>, with
  the order in which \<^verbatim>\<open>range\<close> visits the two properties as the parameter.
\<close>

definition dupMem :: "(string \<times> nat) list \<Rightarrow> nat \<Rightarrow> Schema" where
  "dupMem props = (\<lambda>_. emptySchema)
     (0 := emptySchema\<lparr>TypeValue := [''object''], PathElement := ''#'', Properties := props\<rparr>,
      1 := emptySchema\<lparr>TypeValue := [''string''], JSONKey := ''a-b'',
             PathElement := ''properties/a-b'', Parent := Some 0\<rparr>,
      2 := emptySchema\<lparr>TypeValue := [''integer''], JSONKey := ''a_b'',
             PathElement := ''properties/a_b'', Parent := Some 0\<rparr>)"

text \<open>\<^verbatim>\<open>{"type":"object","definitions":{"bad":{"type":"foo"}}}\<close>\<close>

definition defsMem :: "nat \<Rightarrow> Schema" where
  "defsMem = (\<lambda>_. emptySchema)
     (0 := emptySchema\<lparr>TypeValue := [''object''], PathElement := ''#'',
             Definitions := [(''bad'', 1)]\<rparr>,
      1 := emptySchema\<lparr>TypeValue := [''foo''], JSONKey := ''bad'',
             PathElement := ''definitions/bad'', Parent := Some 0\<rparr>)"

text \<open>
  The fields the renderer passes over (line 84), a record without them, and the condition
  that the field maps of a registry are maps (one entry per key).
\<close>

definition notRendered :: "Field \<Rightarrow> bool" where
  "notRendered f = (HasPrefix (JSONName f) ''_'' \<or> JSONName f = ''-'')"

definition withoutSkipped :: "Struct \<Rightarrow> Struct" where
  "withoutSkipped s = s\<lparr>Fields := filter (\<lambda>(k, f). \<not> notRendered f) (Fields s)\<rparr>"

definition mapFieldsDistinct :: "(string \<times> Struct) list \<Rightarrow> bool" where
  "mapFieldsDistinct structs = list_all (\<lambda>(k, s). distinct (map fst (Fields s))) structs"

text \<open>A record with a hidden field, an internal field and a string slice.\<close>

definition docStruct :: Struct where
  "docStruct =
     \<lparr>ID = '''', StructName = ''Doc'', StructDescription = '''',
      Fields =
        [(''AdditionalProperties'',
            \<lparr>Name = ''AdditionalProperties'', JSONName = ''-'', Type = ''map[string]string'',
             Required = False, Description = '''', Format = ''''\<rparr>),
         (''ID'', \<lparr>Name = ''ID'', JSONName = ''_id'', Type = ''string'', Required = True,
                   Description = '''', Format = ''''\<rparr>),
         (''Tags'', \<lparr>Name = ''Tags'', JSONName = ''tags'', Type = ''[]string'', Required = False,
                     Description = '''', Format = ''''\<rparr>)],
      GenerateCode = True, AdditionalType = ''string'', importTypes = []\<rparr>"

definition tagsField :: "string \<Rightarrow> Field" where
  "tagsField fmt =
     \<lparr>Name = ''Tags'', JSONName = ''tags'', Type = ''[]string'', Required = False,
      Description = '''', Format = fmt\<rparr>"

text \<open>A registry that holds a record under the name \<^verbatim>\<open>string\<close>.\<close>

definition stringStructs :: "(string \<times> Struct) list" where
  "stringStructs = [(''string'', docStruct\<lparr>StructName := ''string'', AdditionalType := ''''\<rparr>)]"

text \<open>\<^verbatim>\<open>{"type":"array","items":{"type":"integer"}}\<close>\<close>

definition arrayMem :: "nat \<Rightarrow> Schema" where
  "arrayMem = (\<lambda>_. emptySchema)
     (0 := emptySchema\<lparr>TypeValue := [''array''], PathElement := ''#'', Items := Some 1\<rparr>,
      1 := emptySchema\<lparr>TypeValue := [''integer''], PathElement := ''items'', Parent := Some 0\<rparr>)"

text \<open>\<^verbatim>\<open>{"type":"object","additionalProperties":{"type":"string"}}\<close>\<close>

definition collapseMem :: "nat \<Rightarrow> Schema" where
  "collapseMem = (\<lambda>_. emptySchema)
     (0 := emptySchema\<lparr>TypeValue := [''object''], PathElement := ''#'',
             AdditionalProperties := Some 1\<rparr>,
      1 := emptySchema\<lparr>TypeValue := [''string''], PathElement := ''additionalProperties'',
             Parent := Some 0\<rparr>)"

text \<open>
  A node \<open>r\<close> that is nothing but a \<^verbatim>\<open>$ref\<close> which the resolver takes to the node \<open>t\<close>:
  no type tag, no properties, no definitions.
\<close>

definition refersTo :: "Generator \<Rightarrow> nat \<Rightarrow> nat \<Rightarrow> bool" where
  "refersTo g r t =
     (TypeValue (nodes g r) = [] \<and> Properties (nodes g r) = [] \<and> Definitions (nodes g r) = [] \<and>
      Reference (nodes g r) \<noteq> '''' \<and> GetSchemaByReference (resolver g) r = Some t)"

text \<open>
  \<^verbatim>\<open>{"type":"object",
    "properties":{"m":{"type":"object","additionalProperties":{"type":"string"}}},
    "additionalProperties":{"$ref":"#/properties/m"}}\<close>: the root is node 0, the property
  \<^verbatim>\<open>m\<close> is node 1, its \<^verbatim>\<open>additionalProperties\<close> node 2, and the \<^verbatim>\<open>additionalProperties\<close>
  of the root, node 3, refers to \<^verbatim>\<open>m\<close>.
\<close>

definition danglingMem :: "nat \<Rightarrow> Schema" where
  "danglingMem = (\<lambda>_. emptySchema)
     (0 := emptySchema\<lparr>TypeValue := [''object''], PathElement := ''#'',
             Properties := [(''m'', 1)], AdditionalProperties := Some 3\<rparr>,
      1 := emptySchema\<lparr>TypeValue := [''object''], JSONKey := ''m'',
             PathElement := ''properties/m'', Parent := Some 0,
             AdditionalProperties := Some 2\<rparr>,
      2 := emptySchema\<lparr>TypeValue := [''string''], PathElement := ''additionalProperties'',
             Parent := Some 1\<rparr>,
      3 := emptySchema\<lparr>Reference := ''#/properties/m'',
             PathElement := ''additionalProperties'', Parent := Some 0\<rparr>)"

definition danglingResolver :: RefResolver where
  "danglingResolver =
     \<lparr>Init = None,
      GetSchemaByReference = (\<lambda>n. if n = 3 then Some 1 else None),
      GetPath = (\<lambda>_. '''')\<rparr>"

text \<open>
  \<^verbatim>\<open>{"type":"object","properties":{"a":{"$ref":"#/additionalProperties"},
   "b":{"$ref":"#/additionalProperties"}},
   "additionalProperties":{"type":"array","items":{"type":"object"}}}\<close>: the root is node 4,
  its \<^verbatim>\<open>additionalProperties\<close> is the array at node 0, with the item schema at node 1, and
  both properties (nodes 2 and 3) refer to the array.
\<close>

definition sharedMem :: "nat \<Rightarrow> Schema" where
  "sharedMem = (\<lambda>_. emptySchema)
     (0 := emptySchema\<lparr>TypeValue := [''array''], Items := Some 1, Parent := Some 4,
             PathElement := ''additionalProperties''\<rparr>,
      1 := emptySchema\<lparr>TypeValue := [''object''], PathElement := ''items'', Parent := Some 0\<rparr>,
      2 := emptySchema\<lparr>Reference := ''#/additionalProperties'', JSONKey := ''a'',
             PathElement := ''properties/a'', Parent := Some 4\<rparr>,
      3 := emptySchema\<lparr>Reference := ''#/additionalProperties'', JSONKey := ''b'',
             PathElement := ''properties/b'', Parent := Some 4\<rparr>,
      4 := emptySchema\<lparr>TypeValue := [''object''], PathElement := ''#'',
             Properties := [(''a'', 2), (''b'', 3)], AdditionalProperties := Some 0\<rparr>)"

definition sharedResolver :: RefResolver where
  "sharedResolver =
     \<lparr>Init = None,
      GetSchemaByReference = (\<lambda>n. if n = 2 \<or> n = 3 then Some 0 else None),
      GetPath = (\<lambda>_. '''')\<rparr>"





text \<open>
  \<^verbatim>\<open>{"type":"object","properties":{"self":{"$ref":"#"}}}\<close>: an object whose property refers
  to the object itself.
\<close>

definition selfMem :: "nat \<Rightarrow> Schema" where
  "selfMem = (\<lambda>_. emptySchema)
     (0 := emptySchema\<lparr>TypeValue := [''object''], PathElement := ''#'',
             Properties := [(''self'', 1)]\<rparr>,
      1 := emptySchema\<lparr>Reference := ''#'', JSONKey := ''self'',
             PathElement := ''properties/self'', Parent := Some 0\<rparr>)"

definition selfResolver :: RefResolver where
  "selfResolver =
     \<lparr>Init = None,
      GetSchemaByReference = (\<lambda>n. if n = 1 then Some 0 else None),
      GetPath = (\<lambda>_. '''')\<rparr>"

text \<open>
  \<^verbatim>\<open>{"type":"object","properties":{"child":{"$ref":"#/definitions/child"}},
   "definitions":{"child":{"type":"object","properties":{"parent":{"$ref":"#"}}}}}\<close>:
  the property \<^verbatim>\<open>child\<close> of the root leads, through the definition \<^verbatim>\<open>child\<close>, back to the
  root.
\<close>

definition loopMem :: "nat \<Rightarrow> Schema" where
  "loopMem = (\<lambda>_. emptySchema)
     (0 := emptySchema\<lparr>TypeValue := [''object''], PathElement := ''#'',
             Properties := [(''child'', 1)], Definitions := [(''child'', 2)]\<rparr>,
      1 := emptySchema\<lparr>Reference := ''#/definitions/child'', JSONKey := ''child'',
             PathElement := ''properties/child'', Parent := Some 0\<rparr>,
      2 := emptySchema\<lparr>TypeValue := [''object''], Properties := [(''parent'', 3)],
             JSONKey := ''child'', PathElement := ''definitions/child'', Parent := Some 0\<rparr>,
      3 := emptySchema\<lparr>Reference := ''#'', JSONKey := ''parent'',
             PathElement := ''properties/parent'', Parent := Some 2\<rparr>)"

definition loopResolver :: RefResolver where
  "loopResolver =
     \<lparr>Init = None,
      GetSchemaByReference = (\<lambda>n. if n = 1 then Some 2 else if n = 3 then Some 0 else None),
      GetPath = (\<lambda>_. '''')\<rparr>"

text \<open>
  What holds of the graph \<open>loopMem\<close> for as long as the root has no memo: the shape of the
  root, of the definition and of the reference back to the root.
\<close>

definition rootUnresolved :: "Generator \<Rightarrow> bool" where
  "rootUnresolved g =
     (GeneratedType (nodes g 0) = '''' \<and>
      Definitions (nodes g 0) = [(''child'', 2)] \<and>
      TypeValue (nodes g 2) = [''object''] \<and> Definitions (nodes g 2) = [] \<and>
      Properties (nodes g 2) = [(''parent'', 3)] \<and>
      TypeValue (nodes g 3) = [] \<and> Definitions (nodes g 3) = [] \<and>
      Properties (nodes g 3) = [] \<and> Reference (nodes g 3) \<noteq> '''' \<and>
      GetSchemaByReference (resolver g) 3 = Some 0)"

text \<open>The error of a run and, for each record it registered, the names and types of its fields.\<close>

definition fieldTypes :: "(error option \<times> Generator) option \<Rightarrow>
    (error option \<times> (string \<times> (string \<times> string) list) list) option" where
  "fieldTypes =
     map_option (\<lambda>(e, g).
       (e, map (\<lambda>(k, s). (k, map (\<lambda>(n, f). (n, Type f)) (Fields s))) (Structs g)))"

section \<open>Evaluation on concrete inputs\<close>

text \<open>
  The equations that unfold the generator and the renderer on a closed input.  They include
  the recursive equation of \<open>showNat\<close> and the successor form of numerals, so they are for
  closed terms only.
\<close>

lemmas generator_eval =
  New_def processReference_def processArray_def processObject_def processObject_additional_def
  processObject_boolean_def processDefinitions_def getSchemaName_def getGolangName_def
  splitOnAll_def isNotAGoNameCharacter_def IsLetter_def IsDigit_def capitaliseFirstLetter_def
  applyConventions_def ToUpper_def lowerLetters_def upperLetters_def getPrimitiveTypeName_def
  Trim_def HasPrefix_def FixMissingTypeValue_def MultiType_def Let_def showNat.simps
  formatCustomTypes_def emptySchema_def noResolver_def CreateTypes_def eval_nat_numeral

lemmas renderer_eval =
  renderStructMapping_field_def getESType_def getOrderedFieldNames_def fieldAt_def typeLeaf_def
  printIndented_def printIndentedLn_def Repeat_def zeroField_def Trim_def HasPrefix_def Let_def
  eval_nat_numeral

section \<open>Preservation of stable predicates\<close>

lemma processSchema_Suc:
  "processSchema (Suc depth) conventions schemaName schema g =
     (case (if length (Definitions (nodes g schema)) > 0
           then processDefinitions (processSchema depth conventions) schema conventions g
           else Some (None, g)) of
       None \<Rightarrow> None
     | Some (_, g1) \<Rightarrow>
         (let g2 = g1\<lparr>nodes := (nodes g1)(schema := FixMissingTypeValue (nodes g1 schema))\<rparr>;
              (types, isMultiType) = MultiType (nodes g2 schema)
          in if length types > 0 then
               processSchema_types (processSchema depth conventions) conventions schemaName
                 schema isMultiType types g2
             else if Reference (nodes g2 schema) \<noteq> '''' then
               processReference (processSchema depth conventions) schema conventions g2
             else Some (Inr ''interface{}'', g2)))"
  by simp

lemma stable_anon: "stable P \<Longrightarrow> P g \<Longrightarrow> P (g\<lparr>anonCount := c\<rparr>)"
  by (simp add: stable_def)
lemma stable_memo: "stable P \<Longrightarrow> P g \<Longrightarrow> P (g\<lparr>nodes := (nodes g)(n := (nodes g n)\<lparr>GeneratedType := ''*'' @ t\<rparr>)\<rparr>)"
  unfolding stable_def by blast
lemma stable_fix: "stable P \<Longrightarrow> P g \<Longrightarrow> P (g\<lparr>nodes := (nodes g)(n := FixMissingTypeValue (nodes g n))\<rparr>)"
  unfolding stable_def by blast
lemma stable_structs: "stable P \<Longrightarrow> P g \<Longrightarrow> P (g\<lparr>Structs := put k v (Structs g)\<rparr>)"
  unfolding stable_def by blast
lemma stable_aliases: "stable P \<Longrightarrow> P g \<Longrightarrow> P (g\<lparr>Aliases := put k v (Aliases g)\<rparr>)"
  unfolding stable_def by blast
lemma keepsD: "keeps P rec \<Longrightarrow> rec nm s g = Some (r, g') \<Longrightarrow> P g \<Longrightarrow> P g'"
  unfolding keeps_def by blast

lemma getSchemaName_stable:
  "stable P \<Longrightarrow> P g \<Longrightarrow> getSchemaName k s c g = (nm, g') \<Longrightarrow> P g'"
  by (auto simp: getSchemaName_def Let_def stable_anon split: if_splits option.splits)

lemma processDefinitions_loop_keeps:
  "keeps P rec \<Longrightarrow> processDefinitions_loop rec c ds g = Some (e, g') \<Longrightarrow> P g \<Longrightarrow> P g'"
proof (induction ds arbitrary: g)
  case Nil
  then show ?case by simp
next
  case (Cons d ds)
  obtain key sub where d: "d = (key, sub)" by (cases d)
  show ?case
  proof (cases "rec (getGolangName key c) sub g")
    case None
    with Cons.prems d show ?thesis by simp
  next
    case (Some a)
    obtain r g1 where a: "a = (r, g1)" by (cases a)
    have P1: "P g1" using keepsD[OF Cons.prems(1) Some[unfolded a] Cons.prems(3)] .
    show ?thesis
    proof (cases r)
      case (Inl err)
      with Cons.prems d Some a P1 show ?thesis by simp
    next
      case (Inr t)
      with Cons.prems d Some a have "processDefinitions_loop rec c ds g1 = Some (e, g')" by simp
      from Cons.IH[OF Cons.prems(1) this P1] show ?thesis .
    qed
  qed
qed

lemma processReference_keeps:
  "stable P \<Longrightarrow> keeps P rec \<Longrightarrow> processReference rec s c g = Some (r, g') \<Longrightarrow> P g \<Longrightarrow> P g'"
  by (auto simp: processReference_def Let_def split: if_splits option.splits prod.splits sum.splits
      dest: getSchemaName_stable keepsD)

lemma processArray_keeps:
  "stable P \<Longrightarrow> keeps P rec \<Longrightarrow> processArray rec nm s c g = Some (r, g') \<Longrightarrow> P g \<Longrightarrow> P g'"
  by (auto simp: processArray_def Let_def stable_aliases split: if_splits option.splits prod.splits sum.splits
      dest: getSchemaName_stable keepsD)

lemma processObject_properties_keeps:
  "stable P \<Longrightarrow> keeps P rec \<Longrightarrow>
   processObject_properties rec c ct s ps strct g = Some (r, g') \<Longrightarrow> P g \<Longrightarrow> P g'"
proof (induction ps arbitrary: g strct)
  case Nil
  then show ?case by simp
next
  case (Cons a ps)
  obtain propKey pr where a: "a = (propKey, pr)" by (cases a)
  obtain nm g1 where n: "getSchemaName (getGolangName propKey c) pr c g = (nm, g1)"
    by (cases "getSchemaName (getGolangName propKey c) pr c g")
  have P1: "P g1" using getSchemaName_stable[OF Cons.prems(1) Cons.prems(4) n] .
  show ?case
  proof (cases "rec nm pr g1")
    case None
    with Cons.prems(3) a n show ?thesis by simp
  next
    case (Some b)
    obtain res g2 where b: "b = (res, g2)" by (cases b)
    have P2: "P g2" using keepsD[OF Cons.prems(2) Some[unfolded b] P1] .
    show ?thesis
    proof (cases res)
      case (Inl err)
      with Cons.prems(3) a n Some b P2 show ?thesis by simp
    next
      case (Inr fieldType)
      with Cons.prems(3) a n Some b
      obtain strct' where "processObject_properties rec c ct s ps strct' g2 = Some (r, g')"
        by (simp add: Let_def)
      from Cons.IH[OF Cons.prems(1) Cons.prems(2) this P2] show ?thesis .
    qed
  qed
qed

lemma processObject_additional_keeps:
  "stable P \<Longrightarrow> keeps P rec \<Longrightarrow>
   processObject_additional rec c s strct g = Some (r, g') \<Longrightarrow> P g \<Longrightarrow> P g'"
  by (auto simp: processObject_additional_def Let_def
      split: if_splits option.splits prod.splits sum.splits
      dest: getSchemaName_stable keepsD)

lemma processObject_keeps:
  assumes st: "stable P" and k: "keeps P rec"
    and run: "processObject rec nm s c ct g = Some (r, g')" and P: "P g"
  shows "P g'"
proof -
  let ?g0 = "g\<lparr>nodes := (nodes g)(s := (nodes g s)\<lparr>GeneratedType := ''*'' @ nm\<rparr>)\<rparr>"
  let ?strct = "\<lparr>ID = SchemaID (nodes g s), StructName = nm,
                 StructDescription = SchemaDescription (nodes g s), Fields = [],
                 GenerateCode = False, AdditionalType = '''', importTypes = []\<rparr>"
  have P0: "P ?g0" using stable_memo[OF st P] .
  show ?thesis
  proof (cases "processObject_properties rec c ct s (Properties (nodes g s)) ?strct ?g0")
    case None
    with run show ?thesis by (simp add: processObject_def Let_def)
  next
    case (Some a)
    note props = Some
    obtain res g1 where a: "a = (res, g1)" by (cases a)
    have P1: "P g1" using processObject_properties_keeps[OF st k Some[unfolded a] P0] .
    show ?thesis
    proof (cases res)
      case (Inl err)
      with run Some a P1 show ?thesis by (simp add: processObject_def Let_def)
    next
      case (Inr strct1)
      note res = Inr
      show ?thesis
      proof (cases "processObject_additional rec c s strct1 g1")
        case None
        with run props a res show ?thesis by (simp add: processObject_def Let_def)
      next
        case (Some b)
        obtain res2 g2 where b: "b = (res2, g2)" by (cases b)
        have P2: "P g2" using processObject_additional_keeps[OF st k Some[unfolded b] P1] .
        show ?thesis
        proof (cases res2)
          case (Inl early)
          with run props a res Some b P2 show ?thesis by (simp add: processObject_def Let_def)
        next
          case (Inr strct2)
          with run props a res Some b stable_structs[OF st P2] show ?thesis
            by (auto simp add: processObject_def Let_def)
        qed
      qed
    qed
  qed
qed

lemma processSchema_types_keeps:
  "stable P \<Longrightarrow> keeps P rec \<Longrightarrow>
   processSchema_types rec c nm s multi ts g = Some (r, g') \<Longrightarrow> P g \<Longrightarrow> P g'"
proof (induction ts arbitrary: g)
  case Nil
  then show ?case by simp
next
  case (Cons t ts)
  note ob = processObject_keeps[OF Cons.prems(1,2) _ Cons.prems(4)]
  note ar = processArray_keeps[OF Cons.prems(1,2) _ Cons.prems(4)]
  note ih = Cons.IH[OF Cons.prems(1,2)]
  have ih': "P g'" if "multi" "processSchema_types rec c nm s True ts b = Some (r, g')" "P b" for b
    using that ih[of b] by simp
  show ?case
    using Cons.prems(3,4)
    by (auto simp: Let_def split: option.splits sum.splits if_splits dest!: ob ar intro: ih')
qed

lemma processSchema_keeps: "stable P \<Longrightarrow> keeps P (processSchema depth c)"
proof (induction depth)
  case 0
  show ?case by (simp add: keeps_def)
next
  case (Suc depth)
  have k: "keeps P (processSchema depth c)" using Suc by simp
  show ?case
    unfolding keeps_def
  proof (intro allI impI)
    fix nm s g r g'
    assume run: "processSchema (Suc depth) c nm s g = Some (r, g')" and P: "P g"
    let ?defs = "if length (Definitions (nodes g s)) > 0
                 then processDefinitions (processSchema depth c) s c g else Some (None, g)"
    show "P g'"
    proof (cases ?defs)
      case None
      with run show ?thesis by (simp del: processSchema.simps add: processSchema_Suc)
    next
      case (Some a)
      obtain e g1 where a: "a = (e, g1)" by (cases a)
      have P1: "P g1"
        using Some[unfolded a] P processDefinitions_loop_keeps[OF k _ P]
        by (auto simp: processDefinitions_def split: if_splits)
      define g2 where "g2 = g1\<lparr>nodes := (nodes g1)(s := FixMissingTypeValue (nodes g1 s))\<rparr>"
      have P2: "P g2" unfolding g2_def using stable_fix[OF Suc.prems P1] .
      have unf: "processSchema (Suc depth) c nm s g =
            (if length (TypeValue (nodes g2 s)) > 0 then
               processSchema_types (processSchema depth c) c nm s
                 (length (TypeValue (nodes g2 s)) > 1) (TypeValue (nodes g2 s)) g2
             else if Reference (nodes g2 s) \<noteq> [] then
               processReference (processSchema depth c) s c g2
             else Some (Inr ''interface{}'', g2))"
        using Some a
        by (simp del: processSchema.simps add: processSchema_Suc Let_def MultiType_def g2_def)
      from run
      have rest: "(if length (TypeValue (nodes g2 s)) > 0 then
               processSchema_types (processSchema depth c) c nm s
                 (length (TypeValue (nodes g2 s)) > 1) (TypeValue (nodes g2 s)) g2
             else if Reference (nodes g2 s) \<noteq> [] then
               processReference (processSchema depth c) s c g2
             else Some (Inr ''interface{}'', g2)) = Some (r, g')"
        unfolding unf .
      then show ?thesis
        using processSchema_types_keeps[OF Suc.prems k _ P2]
          processReference_keeps[OF Suc.prems k _ P2] P2
        by (auto split: if_splits)
    qed
  qed
qed

lemma stable_memo_set: "stable (\<lambda>g. GeneratedType (nodes g m) \<noteq> '''')"
  by (simp add: stable_def FixMissingTypeValue_def)

lemma stable_shape: "stable (\<lambda>g. sameShape (nodes g m) s0)"
  by (simp add: stable_def FixMissingTypeValue_def sameShape_def)



lemma stable_resolver: "stable (\<lambda>g. resolver g = r)"
  by (simp add: stable_def)

lemma sameShape_refl: "sameShape a a"
  by (simp add: sameShape_def)

lemma sameShape_fields:
  assumes "sameShape a b"
  shows "Properties a = Properties b" "PathElement a = PathElement b"
    "AdditionalProperties a = AdditionalProperties b"
    "AdditionalPropertiesBool a = AdditionalPropertiesBool b"
    "Definitions a = Definitions b" "Reference a = Reference b" "Parent a = Parent b"
    "Items a = Items b" "JSONKey a = JSONKey b" "Title a = Title b"
  using assms by (cases a; cases b; simp add: sameShape_def)+

lemma Trim_no_leading:
  "\<not> HasPrefix (Trim x cs) [c]" if "c \<in> set cs"
proof (cases "Trim x cs")
  case Nil
  then show ?thesis by (simp add: HasPrefix_def)
next
  case (Cons h t)
  let ?P = "\<lambda>c. c \<in> set cs"
  let ?y = "dropWhile ?P x"
  let ?z = "dropWhile ?P (rev ?y)"
  have z: "?z \<noteq> []" using Cons by (auto simp: Trim_def)
  have y: "?y \<noteq> []"
  proof
    assume a: "?y = []"
    have "?z = []" unfolding a by simp
    with z show False ..
  qed
  have "rev ?y = takeWhile ?P (rev ?y) @ ?z" by simp
  then have "last (rev ?y) = last ?z" using z by (metis last_appendR)
  then have "last ?z = hd ?y" using y by (simp add: last_rev)
  moreover have "hd (Trim x cs) = last ?z" using z by (simp add: Trim_def hd_rev)
  moreover have "\<not> ?P (hd ?y)" using y by (rule hd_dropWhile)
  ultimately have "h \<notin> set cs" using Cons by simp
  with that Cons show ?thesis by (auto simp: HasPrefix_def)
qed


lemma frame_processSchema:
  assumes "processSchema depth c nm s g = Some (r, g')"
  shows "sameShape (nodes g' m) (nodes g m)"
  using keepsD[OF processSchema_keeps[OF stable_shape] assms, of m "nodes g m"]
  by (simp add: sameShape_refl)

lemma frame_getSchemaName:
  assumes "getSchemaName k s c g = (nm, g')"
  shows "nodes g' = nodes g" "resolver g' = resolver g" "Structs g' = Structs g"
    "Aliases g' = Aliases g" "customStringTypes g' = customStringTypes g"
  using assms by (auto simp: getSchemaName_def Let_def split: if_splits option.splits)

lemma same_state: "g\<lparr>nodes := (nodes g)(n := nodes g n)\<rparr> = g"
  by simp

lemma FixMissingTypeValue_typed: "TypeValue s \<noteq> [] \<Longrightarrow> FixMissingTypeValue s = s"
  by (simp add: FixMissingTypeValue_def)

lemma outcome_fstI: "map_option fst x = Some a \<Longrightarrow> x = Some (a, snd (the x))"
  by (cases x) auto


section \<open>Determinism\<close>

text \<open>
  Claim C1 (determinism of two runs on the same schema set) fails on the code.  The schema
  above holds one properties map; two runs may visit its two keys in either order, since
  \<^verbatim>\<open>processObject\<close> ranges over the Go map directly.  Both keys sanitise to the field name
  \<^verbatim>\<open>AB\<close>, the later visit overwrites the earlier one, and the record registered under
  \<^verbatim>\<open>Root\<close> and the mapping rendered for it differ between the two runs.
\<close>

theorem property_order_changes_model:
  "map_of [(''a-b'', 1::nat), (''a_b'', 2)] = map_of [(''a_b'', 2), (''a-b'', 1)] \<and>
   map_option Fields
     (rootStruct (CreateTypes 2 Map.empty (New (dupMem [(''a-b'', 1), (''a_b'', 2)]) noResolver [0])))
     = Some [(''AB'', \<lparr>Name = ''AB'', JSONName = ''a_b'', Type = ''int'', Required = False,
                       Description = '''', Format = ''''\<rparr>)] \<and>
   map_option Fields
     (rootStruct (CreateTypes 2 Map.empty (New (dupMem [(''a_b'', 2), (''a-b'', 1)]) noResolver [0])))
     = Some [(''AB'', \<lparr>Name = ''AB'', JSONName = ''a-b'', Type = ''string'', Required = False,
                       Description = '''', Format = ''''\<rparr>)] \<and>
   rootMapping (CreateTypes 2 Map.empty (New (dupMem [(''a-b'', 1), (''a_b'', 2)]) noResolver [0]))
     \<noteq> rootMapping (CreateTypes 2 Map.empty (New (dupMem [(''a_b'', 2), (''a-b'', 1)]) noResolver [0]))"
proof (intro conjI)
  show "map_of [(''a-b'', 1::nat), (''a_b'', 2)] = map_of [(''a_b'', 2), (''a-b'', 1)]"
    by (rule ext) simp
qed code_simp+

section \<open>Error propagation\<close>

text \<open>
  Claim C2 (a failure inside a definitions block aborts the run) fails on the code.  In the
  schema \<open>defsMem\<close> the definition \<^verbatim>\<open>bad\<close> declares the unknown type tag \<^verbatim>\<open>foo\<close>;
  \<^verbatim>\<open>processDefinitions\<close> returns the error, \<^verbatim>\<open>processSchema\<close> drops it (line 119), resolves the
  root to \<^verbatim>\<open>*Root\<close>, and \<^verbatim>\<open>CreateTypes\<close> returns no error.
\<close>

theorem definitions_error_is_dropped:
  "map_option fst
     (processDefinitions (processSchema 1 Map.empty) 0 Map.empty (New defsMem noResolver [0]))
     = Some (Some (UndefinedPrimitive ''foo'' '''')) \<and>
   map_option fst (processSchema 2 Map.empty ''Root'' 0 (New defsMem noResolver [0]))
     = Some (Inr ''*Root'') \<and>
   map_option fst (CreateTypes 2 Map.empty (New defsMem noResolver [0])) = Some None"
  by (intro conjI; code_simp)

section \<open>Identifier sanitisation\<close>

text \<open>
  Claim C8 (no empty fragments; the identifier never starts with a digit) fails on the code.
  A leading delimiter makes \<^verbatim>\<open>splitOnAll\<close> emit an empty first fragment, the digit test of
  \<^verbatim>\<open>getGolangName\<close> looks at that empty fragment only, and the name that comes out starts
  with a digit, against the comment in the code (``Go types are not allowed to start with a
  number'').
\<close>

theorem leading_delimiter_keeps_digit:
  "splitOnAll ''_1abc'' isNotAGoNameCharacter = ['''', ''1abc''] \<and>
   splitOnAll ''a__b'' isNotAGoNameCharacter = [''a'', '''', ''b''] \<and>
   getGolangName ''_1abc'' Map.empty = ''1abc'' \<and>
   getGolangName ''1abc'' Map.empty = ''_1abc''"
  by (intro conjI; code_simp)

section \<open>The renderer: fields it passes over\<close>

lemma renderStructMapping_Suc:
  "renderStructMapping (Suc depth) indent s structs =
     (case renderStructMapping_fields (\<lambda>i s'. renderStructMapping depth i s' structs)
            (indent + 2) (Fields s) structs (getOrderedFieldNames (Fields s)) 0 of
       None \<Rightarrow> None
     | Some body \<Rightarrow>
         Some (''{'' @ [newline] @
               printIndentedLn (indent + 1) ([dquote] @ ''properties'' @ [dquote] @ '': {'') @
               body @
               printIndentedLn (indent + 2) '''' @
               printIndentedLn ((indent + 2) - 1) ''}'' @
               printIndented ((indent + 2) - 2) ''}''))"
  by simp

text \<open>The loop prints the same text when the keys of passed-over fields are left out.\<close>

lemma fields_loop_skips:
  "renderStructMapping_fields rec indent flds structs ks count =
   renderStructMapping_fields rec indent flds structs
     (filter (\<lambda>k. \<not> notRendered (fieldAt flds k)) ks) count"
  by (induction ks arbitrary: count) (auto simp: Let_def notRendered_def split: option.splits)

text \<open>The loop reads the field map and the registry only at the keys it visits.\<close>

lemma fields_loop_cong:
  "(\<And>k. k \<in> set ks \<Longrightarrow> fieldAt flds k = fieldAt flds' k) \<Longrightarrow>
   (\<And>k. k \<in> set ks \<Longrightarrow>
      renderStructMapping_field rec indent (fieldAt flds k) structs =
      renderStructMapping_field rec' indent (fieldAt flds k) structs') \<Longrightarrow>
   renderStructMapping_fields rec indent flds structs ks count =
   renderStructMapping_fields rec' indent flds' structs' ks count"
proof (induction ks arbitrary: count)
  case Nil
  show ?case by simp
next
  case (Cons k ks)
  have a: "fieldAt flds k = fieldAt flds' k" using Cons.prems(1) by simp
  have b: "renderStructMapping_field rec indent (fieldAt flds k) structs =
      renderStructMapping_field rec' indent (fieldAt flds k) structs'" using Cons.prems(2) by simp
  have ih: "renderStructMapping_fields rec indent flds structs ks n =
   renderStructMapping_fields rec' indent flds' structs' ks n" for n
    using Cons.IH Cons.prems by simp
  show ?case
    using a b ih by (auto simp: Let_def split: option.splits)
qed

lemma fieldAt_filter:
  assumes "\<not> notRendered (fieldAt flds k)" and "k \<in> fst ` set flds"
  shows "fieldAt (filter (\<lambda>(k, f). \<not> notRendered f) flds) k = fieldAt flds k"
proof -
  from assms(2) obtain z where z: "map_of flds k = Some z"
    by (cases "map_of flds k") (auto simp: map_of_eq_None_iff)
  with assms(1) have "\<not> notRendered z" by (simp add: fieldAt_def)
  with z have "map_of (filter (\<lambda>(k, f). \<not> notRendered f) flds) k = Some z"
    by (rule map_of_filter_in)
  with z show ?thesis by (simp add: fieldAt_def)
qed

lemma keys_filter:
  "distinct (map fst flds) \<Longrightarrow>
   map fst (filter (\<lambda>(k, f). \<not> notRendered f) flds) =
   filter (\<lambda>k. \<not> notRendered (fieldAt flds k)) (map fst flds)"
proof (induction flds)
  case Nil
  show ?case by simp
next
  case (Cons a flds)
  obtain k f where a: "a = (k, f)" by (cases a)
  have notin: "k \<notin> fst ` set flds" using Cons.prems a by auto
  have same: "filter (\<lambda>k'. \<not> notRendered (fieldAt ((k, f) # flds) k')) (map fst flds) =
              filter (\<lambda>k'. \<not> notRendered (fieldAt flds k')) (map fst flds)"
    using notin by (intro filter_cong) (auto simp: fieldAt_def)
  show ?case
    using Cons a same by (auto simp: fieldAt_def)
qed

lemma ordered_keys_filter:
  "distinct (map fst flds) \<Longrightarrow>
   getOrderedFieldNames (filter (\<lambda>(k, f). \<not> notRendered f) flds) =
   filter (\<lambda>k. \<not> notRendered (fieldAt flds k)) (getOrderedFieldNames flds)"
  by (simp add: getOrderedFieldNames_def keys_filter filter_sort)

lemma map_of_withoutSkipped:
  "map_of (map (\<lambda>(k, v). (k, withoutSkipped v)) structs) name =
   map_option withoutSkipped (map_of structs name)"
  by (induction structs) auto

lemma AdditionalType_withoutSkipped: "AdditionalType (withoutSkipped s) = AdditionalType s"
  by (simp add: withoutSkipped_def)

lemma field_without_skipped:
  assumes "\<And>i s'. map_of structs (Trim (Type f) ''[]*'') = Some s' \<Longrightarrow>
             rec' i (withoutSkipped s') = rec i s'"
  shows "renderStructMapping_field rec' indent f (map (\<lambda>(k, v). (k, withoutSkipped v)) structs) =
         renderStructMapping_field rec indent f structs"
  using assms
  by (cases "map_of structs (Trim (Type f) ''[]*'')")
     (simp_all add: renderStructMapping_field_def Let_def map_of_withoutSkipped
        AdditionalType_withoutSkipped)

text \<open>
  Claim C9.  The mapping document rendered for a record is the one rendered when every
  field whose JSON name is \<^verbatim>\<open>-\<close> or starts with \<^verbatim>\<open>_\<close> is first deleted, from the record
  and from every record of the registry (those are inlined by the same function): such a
  field contributes nothing to the document, at any nesting depth.  The field maps are Go
  maps, so each holds one entry per key.
\<close>

theorem skipped_fields_never_rendered:
  "mapFieldsDistinct structs \<Longrightarrow> distinct (map fst (Fields s)) \<Longrightarrow>
   renderStructMapping depth indent (withoutSkipped s)
     (map (\<lambda>(k, v). (k, withoutSkipped v)) structs) =
   renderStructMapping depth indent s structs"
proof (induction depth arbitrary: indent s)
  case 0
  show ?case by simp
next
  case (Suc depth)
  let ?structs' = "map (\<lambda>(k, v). (k, withoutSkipped v)) structs"
  let ?rec = "\<lambda>i s'. renderStructMapping depth i s' structs"
  let ?rec' = "\<lambda>i s'. renderStructMapping depth i s' ?structs'"
  let ?flds = "Fields s"
  let ?flds' = "filter (\<lambda>(k, f). \<not> notRendered f) ?flds"
  let ?ks = "filter (\<lambda>k. \<not> notRendered (fieldAt ?flds k)) (getOrderedFieldNames ?flds)"
  have inl: "?rec' i (withoutSkipped s') = ?rec i s'" if "map_of structs name = Some s'" for i s' name
  proof -
    from that have "(name, s') \<in> set structs" by (rule map_of_SomeD)
    with Suc.prems(1) have "distinct (map fst (Fields s'))"
      by (auto simp: mapFieldsDistinct_def list_all_iff)
    with Suc.IH[OF Suc.prems(1)] show ?thesis by simp
  qed
  have "renderStructMapping_fields ?rec' (indent + 2) ?flds' ?structs' (getOrderedFieldNames ?flds') 0
      = renderStructMapping_fields ?rec' (indent + 2) ?flds' ?structs' ?ks 0"
    by (simp add: ordered_keys_filter[OF Suc.prems(2)])
  also have "\<dots> = renderStructMapping_fields ?rec (indent + 2) ?flds structs ?ks 0"
  proof (rule fields_loop_cong)
    fix k assume "k \<in> set ?ks"
    then show "fieldAt ?flds' k = fieldAt ?flds k"
      by (intro fieldAt_filter) (auto simp: getOrderedFieldNames_def)
  next
    fix k assume "k \<in> set ?ks"
    show "renderStructMapping_field ?rec' (indent + 2) (fieldAt ?flds' k) ?structs' =
          renderStructMapping_field ?rec (indent + 2) (fieldAt ?flds' k) structs"
      by (rule field_without_skipped) (rule inl)
  qed
  also have "\<dots> = renderStructMapping_fields ?rec (indent + 2) ?flds structs
                       (getOrderedFieldNames ?flds) 0"
    by (rule fields_loop_skips[symmetric])
  finally have "renderStructMapping_fields ?rec' (indent + 2) (Fields (withoutSkipped s)) ?structs'
                  (getOrderedFieldNames (Fields (withoutSkipped s))) 0 =
                renderStructMapping_fields ?rec (indent + 2) ?flds structs
                  (getOrderedFieldNames ?flds) 0"
    by (simp add: withoutSkipped_def)
  then show ?case
    by (simp only: renderStructMapping_Suc)
qed

text \<open>
  The record \<open>docStruct\<close> has the hidden field \<^verbatim>\<open>-\<close> and the internal field \<^verbatim>\<open>_id\<close>; its
  mapping document holds the field \<^verbatim>\<open>tags\<close> only.
\<close>

theorem skipped_fields_never_rendered_witness:
  "mapFieldsDistinct [(''Doc'', docStruct)] \<and> distinct (map fst (Fields docStruct)) \<and>
   map fst (Fields (withoutSkipped docStruct)) = [''Tags''] \<and>
   renderStructMapping 1 0 (withoutSkipped docStruct) [(''Doc'', withoutSkipped docStruct)] =
   renderStructMapping 1 0 docStruct [(''Doc'', docStruct)] \<and>
   renderStructMapping 1 0 docStruct [(''Doc'', docStruct)] =
     Some (''{'' @ [newline, tab, dquote] @ ''properties'' @ [dquote] @ '': {'' @
           [newline, tab, tab, dquote] @ ''tags'' @ [dquote] @ '': {'' @
           [newline, tab, tab, tab, dquote] @ ''type'' @ [dquote] @ '': '' @
           [dquote] @ ''keyword'' @ [dquote, newline, tab, tab] @ ''}'' @
           [tab, tab, newline, tab] @ ''}'' @ [newline] @ ''}'')"
proof (intro conjI)
  show d1: "mapFieldsDistinct [(''Doc'', docStruct)]"
    by (simp add: mapFieldsDistinct_def docStruct_def)
  show d2: "distinct (map fst (Fields docStruct))"
    by (simp add: docStruct_def)
  show "map fst (Fields (withoutSkipped docStruct)) = [''Tags'']"
    by (simp add: docStruct_def withoutSkipped_def notRendered_def HasPrefix_def)
  show "renderStructMapping 1 0 (withoutSkipped docStruct) [(''Doc'', withoutSkipped docStruct)] =
        renderStructMapping 1 0 docStruct [(''Doc'', docStruct)]"
    using skipped_fields_never_rendered[OF d1 d2, of 1 0] by simp
  show "renderStructMapping 1 0 docStruct [(''Doc'', docStruct)] =
     Some (''{'' @ [newline, tab, dquote] @ ''properties'' @ [dquote] @ '': {'' @
           [newline, tab, tab, dquote] @ ''tags'' @ [dquote] @ '': {'' @
           [newline, tab, tab, tab, dquote] @ ''type'' @ [dquote] @ '': '' @
           [dquote] @ ''keyword'' @ [dquote, newline, tab, tab] @ ''}'' @
           [tab, tab, newline, tab] @ ''}'' @ [newline] @ ''}'')"
    by code_simp
qed

section \<open>The renderer: string slices\<close>

text \<open>
  Claim C10.  A field of type \<^verbatim>\<open>[]string\<close> is classified as a scalar string field is:
  \<^verbatim>\<open>date\<close> when its format is \<^verbatim>\<open>date-time\<close>, \<^verbatim>\<open>keyword\<close> otherwise, never \<^verbatim>\<open>object\<close>; what the
  renderer prints for it is the leaf mapping of that type, whatever the registry holds and
  without a recursive call.
\<close>

theorem string_slice_is_scalar_string:
  assumes "Type f = ''[]string''"
  shows "getESType f = (if Format f = ''date-time'' then ''date'' else ''keyword'') \<and>
         getESType f = getESType (f\<lparr>Type := ''string''\<rparr>) \<and>
         getESType f \<noteq> ''object'' \<and>
         renderStructMapping_field rec indent f structs = Some (typeLeaf indent (getESType f))"
  using assms by (simp add: getESType_def renderStructMapping_field_def Let_def)

text \<open>
  The registry \<open>stringStructs\<close> holds a record under the name \<^verbatim>\<open>string\<close>, which is what
  \<^verbatim>\<open>strings.Trim\<close> leaves of \<^verbatim>\<open>[]string\<close>; the field is a leaf all the same.
\<close>

theorem string_slice_is_scalar_string_witness:
  "Type (tagsField ''date-time'') = ''[]string'' \<and>
   getESType (tagsField ''date-time'') = ''date'' \<and>
   getESType (tagsField ''uuid'') = ''keyword'' \<and>
   map_of stringStructs (Trim (Type (tagsField ''uuid'')) ''[]*'') \<noteq> None \<and>
   renderStructMapping_field (\<lambda>i s. None) 2 (tagsField ''uuid'') stringStructs
     = Some (typeLeaf 2 ''keyword'')"
  using string_slice_is_scalar_string[of "tagsField ''date-time''" "\<lambda>i s. None" 2 stringStructs]
    string_slice_is_scalar_string[of "tagsField ''uuid''" "\<lambda>i s. None" 2 stringStructs]
  by (simp add: tagsField_def stringStructs_def docStruct_def Trim_def)

section \<open>Array items\<close>

text \<open>
  Claim C7.  When the items of an array node resolve to a type \<open>subTyp\<close>, the array resolves
  to \<^verbatim>\<open>[]\<close> followed by that type with \<^verbatim>\<open>int\<close> widened to \<^verbatim>\<open>int64\<close> and the pointer marks
  \<^verbatim>\<open>*\<close> stripped from its ends: items of type \<^verbatim>\<open>int\<close> give \<^verbatim>\<open>[]int64\<close>, the element type never
  starts with \<^verbatim>\<open>*\<close>, and a scalar node of type \<^verbatim>\<open>integer\<close> still resolves to \<^verbatim>\<open>int\<close>.  The
  statement holds for every way \<open>rec\<close> of resolving the items.
\<close>

theorem array_items_widened:
  assumes "Items (nodes g n) = Some items"
    and "getSchemaName (name @ ''Items'') items c g = (subName, g1)"
    and "rec subName items g1 = Some (Inr subTyp, g2)"
    and "subTyp \<noteq> ''''"
  shows "map_option fst (processArray rec name n c g) =
           Some (Inr (''[]'' @ Trim (if subTyp = ''int'' then ''int64'' else subTyp) ''*'')) \<and>
         (subTyp = ''int'' \<longrightarrow>
            map_option fst (processArray rec name n c g) = Some (Inr ''[]int64'')) \<and>
         \<not> HasPrefix (Trim (if subTyp = ''int'' then ''int64'' else subTyp) ''*'') ''*'' \<and>
         processSchema_types rec c name n False [''integer''] g = Some (Inr ''int'', g)"
proof (intro conjI impI)
  show a: "map_option fst (processArray rec name n c g) =
           Some (Inr (''[]'' @ Trim (if subTyp = ''int'' then ''int64'' else subTyp) ''*''))"
    using assms by (simp add: processArray_def getPrimitiveTypeName_def Let_def)
  show "map_option fst (processArray rec name n c g) = Some (Inr ''[]int64'')" if "subTyp = ''int''"
    using a that by (simp add: Trim_def)
  show "\<not> HasPrefix (Trim (if subTyp = ''int'' then ''int64'' else subTyp) ''*'') ''*''"
    by (rule Trim_no_leading) simp
  show "processSchema_types rec c name n False [''integer''] g = Some (Inr ''int'', g)"
    by (simp add: getPrimitiveTypeName_def)
qed

text \<open>\<^verbatim>\<open>{"type":"array","items":{"type":"integer"}}\<close> resolves to \<^verbatim>\<open>[]int64\<close>.\<close>

theorem array_items_widened_witness:
  "Items (nodes (New arrayMem noResolver [0]) 0) = Some 1 \<and>
   map_option fst (processSchema 1 Map.empty ''RootItems'' 1 (New arrayMem noResolver [0]))
     = Some (Inr ''int'') \<and>
   map_option fst (processArray (processSchema 1 Map.empty) ''Root'' 0 Map.empty
                     (New arrayMem noResolver [0])) = Some (Inr ''[]int64'') \<and>
   map_option fst (processSchema 2 Map.empty ''Root'' 0 (New arrayMem noResolver [0]))
     = Some (Inr ''[]int64'')"
proof -
  let ?g = "New arrayMem noResolver [0]"
  have i: "Items (nodes ?g 0) = Some 1" by code_simp
  have n: "getSchemaName (''Root'' @ ''Items'') 1 Map.empty ?g = (''RootItems'', ?g)"
    by (simp add: getSchemaName_def Let_def New_def arrayMem_def emptySchema_def) code_simp
  have t: "map_option fst (processSchema 1 Map.empty ''RootItems'' 1 ?g) = Some (Inr ''int'')"
    by code_simp
  then obtain g2 where s: "processSchema 1 Map.empty ''RootItems'' 1 ?g = Some (Inr ''int'', g2)"
    by (cases "processSchema 1 Map.empty ''RootItems'' 1 ?g") auto
  have e: "map_option fst (processSchema 2 Map.empty ''Root'' 0 ?g) = Some (Inr ''[]int64'')"
    by code_simp
  from array_items_widened[where rec = "processSchema 1 Map.empty" and g = ?g and n = 0
      and name = "''Root''" and c = Map.empty, OF i n s] i t e
  show ?thesis by simp
qed

section \<open>Collapsing an object to a map\<close>

text \<open>
  Claim C3.  An object node without declared properties, with a typed
  \<^verbatim>\<open>additionalProperties\<close> sub-schema and a path element that does not start with
  \<^verbatim>\<open>definitions\<close>: if the sub-schema resolves to \<open>subTyp\<close>, object resolution returns
  \<^verbatim>\<open>map[string]\<close> followed by \<open>subTyp\<close>, and the state it leaves is the very state the
  resolution of the sub-schema left, which started from the registries as they were on
  entry: the object itself registers no record and no alias.  The same holds for
  \<^verbatim>\<open>processSchema\<close> on a node whose one type tag is \<^verbatim>\<open>object\<close> and that has no definitions.
\<close>

theorem additional_properties_collapse:
  assumes props: "Properties (nodes g n) = []"
    and ap: "AdditionalProperties (nodes g n) = Some ap"
    and typed: "AdditionalPropertiesBool (nodes g ap) = None"
    and path: "\<not> HasPrefix (PathElement (nodes g n)) ''definitions''"
    and name: "getSchemaName '''' ap c
                 (g\<lparr>nodes := (nodes g)(n := (nodes g n)\<lparr>GeneratedType := ''*'' @ name\<rparr>)\<rparr>)
               = (apName, g1)"
    and sub: "processSchema depth c apName ap g1 = Some (Inr subTyp, g2)"
  shows "processObject (processSchema depth c) name n c ct g
           = Some (Inr (''map[string]'' @ subTyp), g2) \<and>
         Structs g1 = Structs g \<and> Aliases g1 = Aliases g \<and>
         (TypeValue (nodes g n) = [''object''] \<and> Definitions (nodes g n) = [] \<longrightarrow>
            processSchema (Suc depth) c name n g = Some (Inr (''map[string]'' @ subTyp), g2))"
proof -
  let ?gm = "g\<lparr>nodes := (nodes g)(n := (nodes g n)\<lparr>GeneratedType := ''*'' @ name\<rparr>)\<rparr>"
  have s0: "sameShape (nodes ?gm n) (nodes g n)" by (simp add: sameShape_def)
  have n1: "nodes g1 = nodes ?gm" using frame_getSchemaName(1)[OF name] .
  have s2: "sameShape (nodes g2 n) (nodes g n)"
    using frame_processSchema[OF sub, of n] s0 n1 by (simp add: sameShape_def)
  have p2: "Properties (nodes g2 n) = []" "PathElement (nodes g2 n) = PathElement (nodes g n)"
    using sameShape_fields(1,2)[OF s2] props by simp_all
  have typed0: "AdditionalPropertiesBool (nodes ?gm ap) = None"
    using typed by (cases "ap = n") simp_all
  have obj: "processObject (processSchema depth c) name n c ct g
           = Some (Inr (''map[string]'' @ subTyp), g2)" for ct
    using props ap typed0 path name sub p2
    by (simp add: processObject_def processObject_additional_def Let_def)
  have "processSchema (Suc depth) c name n g = Some (Inr (''map[string]'' @ subTyp), g2)"
    if "TypeValue (nodes g n) = [''object'']" "Definitions (nodes g n) = []"
    using that obj[of "customStringTypes g"]
    by (simp del: processSchema.simps
        add: processSchema_Suc Let_def MultiType_def FixMissingTypeValue_typed)
  with obj frame_getSchemaName(3,4)[OF name] show ?thesis by simp
qed

text \<open>
  \<^verbatim>\<open>{"type":"object","additionalProperties":{"type":"string"}}\<close> resolves to
  \<^verbatim>\<open>map[string]string\<close>; no record is registered, and \<^verbatim>\<open>CreateTypes\<close> binds the alias
  \<^verbatim>\<open>Root\<close> to the map type.
\<close>

theorem additional_properties_collapse_witness:
  "Properties (collapseMem 0) = [] \<and> AdditionalProperties (collapseMem 0) = Some 1 \<and>
   AdditionalPropertiesBool (collapseMem 1) = None \<and>
   \<not> HasPrefix (PathElement (collapseMem 0)) ''definitions'' \<and>
   map_option fst (processSchema 2 Map.empty ''Root'' 0 (New collapseMem noResolver [0]))
     = Some (Inr ''map[string]string'') \<and>
   map_option (\<lambda>(r, g). Structs g) (processSchema 2 Map.empty ''Root'' 0 (New collapseMem noResolver [0]))
     = Some [] \<and>
   map_option (\<lambda>(e, g). (e, Structs g, map (\<lambda>(k, a). (k, Type a)) (Aliases g)))
     (CreateTypes 2 Map.empty (New collapseMem noResolver [0]))
     = Some (None, [], [(''Root'', ''map[string]string'')])"
proof -
  let ?g = "New collapseMem noResolver [0]"
  let ?gm = "?g\<lparr>nodes := (nodes ?g)(0 := (nodes ?g 0)\<lparr>GeneratedType := ''*'' @ ''Root''\<rparr>)\<rparr>"
  let ?nm = "getSchemaName '''' 1 Map.empty ?gm"
  let ?sub = "processSchema 1 Map.empty (fst ?nm) 1 (snd ?nm)"
  have h1: "Properties (nodes ?g 0) = []" by code_simp
  have h2: "AdditionalProperties (nodes ?g 0) = Some 1" by code_simp
  have h3: "AdditionalPropertiesBool (nodes ?g 1) = None" by code_simp
  have h4: "\<not> HasPrefix (PathElement (nodes ?g 0)) ''definitions''" by code_simp
  have h5: "?nm = (fst ?nm, snd ?nm)" by simp
  have "map_option fst ?sub = Some (Inr ''string'')" by code_simp
  then have h6: "?sub = Some (Inr ''string'', snd (the ?sub))" by (rule outcome_fstI)
  have t: "TypeValue (nodes ?g 0) = [''object''] \<and> Definitions (nodes ?g 0) = []"
    by (intro conjI; code_simp)
  have st: "Structs (snd (the ?sub)) = []" by code_simp
  have ct: "map_option (\<lambda>(e, g). (e, Structs g, map (\<lambda>(k, a). (k, Type a)) (Aliases g)))
     (CreateTypes 2 Map.empty ?g) = Some (None, [], [(''Root'', ''map[string]string'')])"
    by code_simp
  have c: "Properties (collapseMem 0) = [] \<and> AdditionalProperties (collapseMem 0) = Some 1 \<and>
   AdditionalPropertiesBool (collapseMem 1) = None \<and>
   \<not> HasPrefix (PathElement (collapseMem 0)) ''definitions''"
    by (intro conjI; code_simp)
  from additional_properties_collapse[OF h1 h2 h3 h4 h5 h6, of formatCustomTypes] t
  have "processSchema 2 Map.empty ''Root'' 0 ?g = Some (Inr ''map[string]string'', snd (the ?sub))"
    by (simp del: processSchema.simps add: numeral_2_eq_2)
  with st ct c show ?thesis by (simp del: processSchema.simps)
qed

section \<open>The memo of a node\<close>

text \<open>
  What holds of the memo: a \<^verbatim>\<open>$ref\<close> to a node whose memo is set resolves to that memo
  and leaves the state as it was, whatever the name and the depth.
\<close>

lemma processSchema_reference_hit:
  assumes "refersTo g r t" "GeneratedType (nodes g t) \<noteq> ''''"
  shows "processSchema (Suc d) c nm r g = Some (Inr (GeneratedType (nodes g t)), g)"
  using assms
  by (simp add: refersTo_def Let_def MultiType_def FixMissingTypeValue_def processReference_def)

text \<open>
  Claim C4 (the memo of a node equals the type its resolution returns, and a node behind two
  references is resolved once, both references yielding the same type) fails on the code.
  \<^verbatim>\<open>processObject\<close> writes the memo \<^verbatim>\<open>*\<close> followed by the name (line 213) before it knows
  whether the object collapses to a map (line 259), and nothing but \<^verbatim>\<open>processObject\<close>
  writes a memo.  The collapsed object \<open>collapseMem\<close> resolves to \<^verbatim>\<open>map[string]string\<close>
  while its memo is \<^verbatim>\<open>*Root\<close>.  In \<open>danglingMem\<close> the property \<^verbatim>\<open>m\<close> collapses to
  \<^verbatim>\<open>map[string]string\<close>; the reference to \<^verbatim>\<open>m\<close> that is resolved after it gets the memo
  \<^verbatim>\<open>*M\<close>, so the record \<^verbatim>\<open>Root\<close> has a field of type \<^verbatim>\<open>map[string]*M\<close> although no
  record \<^verbatim>\<open>M\<close> and no alias \<^verbatim>\<open>M\<close> is registered.  In \<open>sharedMem\<close> the properties
  \<^verbatim>\<open>a\<close> and \<^verbatim>\<open>b\<close> refer to the same array; an array never gets a memo, so it is resolved
  once for each reference and once more as the \<^verbatim>\<open>additionalProperties\<close> of the root, its
  item record is registered three times under three names, and the two references yield two
  different types.
\<close>

theorem collapsed_memo_dangles:
  "map_option (\<lambda>(r, g). (r, GeneratedType (nodes g 0), Structs g))
     (processSchema 2 Map.empty ''Root'' 0 (New collapseMem noResolver [0]))
   = Some (Inr ''map[string]string'', ''*Root'', []) \<and>
   refersTo (New danglingMem danglingResolver [0]) 3 1 \<and>
   fieldTypes (CreateTypes 3 Map.empty (New danglingMem danglingResolver [0]))
   = Some (None,
       [(''Root'',
         [(''M'', ''map[string]string''), (''AdditionalProperties'', ''map[string]*M'')])]) \<and>
   map_option (\<lambda>(e, g). (GeneratedType (nodes g 1), map fst (Structs g), map fst (Aliases g)))
     (CreateTypes 3 Map.empty (New danglingMem danglingResolver [0]))
   = Some (''*M'', [''Root''], []) \<and>
   refersTo (New sharedMem sharedResolver [4]) 2 0 \<and>
   refersTo (New sharedMem sharedResolver [4]) 3 0 \<and>
   fieldTypes (CreateTypes 4 Map.empty (New sharedMem sharedResolver [4]))
   = Some (None,
       [(''Anonymous1Items'', []), (''Anonymous2Items'', []), (''Anonymous3Items'', []),
        (''Root'',
         [(''A'', ''[]Anonymous1Items''), (''B'', ''[]Anonymous2Items''),
          (''AdditionalProperties'', ''map[string][]Anonymous3Items'')])]) \<and>
   map_option (\<lambda>(e, g). GeneratedType (nodes g 0))
     (CreateTypes 4 Map.empty (New sharedMem sharedResolver [4])) = Some ''''"
  by (intro conjI;
      simp add: generator_eval fieldTypes_def collapseMem_def danglingMem_def
        danglingResolver_def sharedMem_def sharedResolver_def refersTo_def)

section \<open>Union types\<close>

















section \<open>References that lead back\<close>

lemma rootUnresolved_getSchemaName:
  assumes "getSchemaName k s c g = (nm, g')" "rootUnresolved g"
  shows "rootUnresolved g'"
  using assms frame_getSchemaName(1,2)[OF assms(1)] by (simp add: rootUnresolved_def)

lemma rootUnresolved_memo:
  "rootUnresolved g \<Longrightarrow>
   rootUnresolved (g\<lparr>nodes := (nodes g)(2 := (nodes g 2)\<lparr>GeneratedType := t\<rparr>)\<rparr>)"
  by (simp add: rootUnresolved_def)

text \<open>
  While the root has no memo, resolving the root, the definition or the reference back to the
  root runs out of any depth: the root visits its definitions before anything else, the
  definition visits its property, and the property finds the root without a memo.
\<close>

lemma recursion_without_end:
  "rootUnresolved g \<Longrightarrow>
   processSchema d c nm 0 g = None \<and> processSchema d c nm 2 g = None \<and>
   processSchema d c nm 3 g = None"
proof (induction d arbitrary: g nm)
  case 0
  show ?case by simp
next
  case (Suc d)
  note inv = Suc.prems
  have node3: "processSchema (Suc d) c nm 3 g = None"
  proof -
    obtain nm' g1 where n: "getSchemaName '''' 0 c g = (nm', g1)"
      by (cases "getSchemaName '''' 0 c g")
    have "rootUnresolved g1" using n inv by (rule rootUnresolved_getSchemaName)
    then have "processSchema d c nm' 0 g1 = None" using Suc.IH by blast
    then show ?thesis
      using inv n
      by (simp add: rootUnresolved_def Let_def MultiType_def FixMissingTypeValue_def
          processReference_def)
  qed
  have node2: "processSchema (Suc d) c nm 2 g = None"
  proof -
    let ?gm = "g\<lparr>nodes := (nodes g)(2 := (nodes g 2)\<lparr>GeneratedType := ''*'' @ nm\<rparr>)\<rparr>"
    obtain nm' g1 where n: "getSchemaName (getGolangName ''parent'' c) 3 c ?gm = (nm', g1)"
      by (cases "getSchemaName (getGolangName ''parent'' c) 3 c ?gm")
    have "rootUnresolved ?gm" using inv by (rule rootUnresolved_memo)
    with n have "rootUnresolved g1" by (rule rootUnresolved_getSchemaName)
    then have "processSchema d c nm' 3 g1 = None" using Suc.IH by blast
    then show ?thesis
      using inv n
      by (simp add: rootUnresolved_def Let_def MultiType_def FixMissingTypeValue_def
          processObject_def)
  qed
  have node0: "processSchema (Suc d) c nm 0 g = None"
  proof -
    have "processSchema d c (getGolangName ''child'' c) 2 g = None" using Suc.IH inv by blast
    then show ?thesis
      using inv by (simp add: rootUnresolved_def processDefinitions_def)
  qed
  from node0 node2 node3 show ?case by simp
qed

text \<open>
  Claim C6 (an object whose property refers back to it, directly or through one other node,
  resolves without infinite recursion) holds for the direct reference and fails on the code
  for the reference through a definition.  The object \<open>selfMem\<close>, whose property \<^verbatim>\<open>self\<close>
  is a reference to the object, resolves to the record \<^verbatim>\<open>Root\<close> with the field \<^verbatim>\<open>Self\<close>
  of type \<^verbatim>\<open>*Root\<close>.  In \<open>loopMem\<close> the property \<^verbatim>\<open>child\<close> of the root refers to the
  definition \<^verbatim>\<open>child\<close>, whose property \<^verbatim>\<open>parent\<close> refers to the root: \<^verbatim>\<open>processSchema\<close>
  visits the definitions of the root before \<^verbatim>\<open>processObject\<close> sets the memo of the root, the
  reference to the root finds no memo and resolves the root anew, and the recursion has no
  end: no depth is enough for \<^verbatim>\<open>processSchema\<close> or \<^verbatim>\<open>CreateTypes\<close> to return.
\<close>

theorem definition_cycle_never_returns:
  "fieldTypes (CreateTypes 2 Map.empty (New selfMem selfResolver [0]))
     = Some (None, [(''Root'', [(''Self'', ''*Root'')])]) \<and>
   (\<forall>depth. processSchema depth Map.empty ''Root'' 0 (New loopMem loopResolver [0]) = None \<and>
            CreateTypes depth Map.empty (New loopMem loopResolver [0]) = None)"
proof (intro conjI allI)
  show "fieldTypes (CreateTypes 2 Map.empty (New selfMem selfResolver [0]))
     = Some (None, [(''Root'', [(''Self'', ''*Root'')])])"
    by (simp add: generator_eval fieldTypes_def selfMem_def selfResolver_def)
next
  fix depth
  let ?g = "New loopMem loopResolver [0]"
  have inv: "rootUnresolved ?g"
    by (simp add: rootUnresolved_def New_def loopMem_def loopResolver_def emptySchema_def)
  have a: "processSchema depth Map.empty ''Root'' 0 ?g = None"
    using recursion_without_end[OF inv] by blast
  have n: "getSchemaName '''' 0 Map.empty ?g = (''Root'', ?g)"
    by (simp add: getSchemaName_def New_def loopMem_def emptySchema_def)
  show "processSchema depth Map.empty ''Root'' 0 ?g = None" by (rule a)
  show "CreateTypes depth Map.empty ?g = None"
    using a n by (simp add: CreateTypes_def) (simp add: New_def loopResolver_def)
qed

end
